theory Spec2Isabelle
  imports Main "HOL-Library.Word"
begin

section \<open>Strings of the platform\<close>

text \<open>
  A JavaScript string is the list of its UTF-16 code units. Literals of the source are
  embedded with \<open>js\<close>; a string is falsy exactly when it is empty.
\<close>

type_synonym jsstring = "16 word list"

definition js :: "string \<Rightarrow> jsstring" where
  "js s = map of_char s"

abbreviation NL :: string where
  "NL \<equiv> [CHR 0x0A]"

text \<open>\<^verbatim>\<open>a || b\<close> on strings.\<close>

definition or_else :: "jsstring \<Rightarrow> jsstring \<Rightarrow> jsstring" where
  "or_else a b = (if a = [] then b else a)"

text \<open>\<^verbatim>\<open>Array.prototype.join\<close> on an array of strings.\<close>

fun join :: "jsstring \<Rightarrow> jsstring list \<Rightarrow> jsstring" where
  "join sep [] = []"
| "join sep [x] = x"
| "join sep (x # y # ys) = x @ sep @ join sep (y # ys)"

text \<open>\<^verbatim>\<open>Number.prototype.toString\<close> on a non-negative integer (the value of \<^verbatim>\<open>Date.now()\<close>).\<close>

definition digit_unit :: "nat \<Rightarrow> 16 word" where
  "digit_unit d = of_nat (48 + d)"

fun toString_nat :: "nat \<Rightarrow> jsstring" where
  "toString_nat n =
     (if n < 10 then [digit_unit n] else toString_nat (n div 10) @ [digit_unit (n mod 10)])"

declare toString_nat.simps [simp del]

text \<open>
  \<^verbatim>\<open>String.prototype.trim\<close> strips the code units of \<^verbatim>\<open>WhiteSpace\<close> and \<^verbatim>\<open>LineTerminator\<close>
  from both ends.
\<close>

definition is_js_space :: "16 word \<Rightarrow> bool" where
  "is_js_space u \<longleftrightarrow>
     u = 0x09 \<or> u = 0x0A \<or> u = 0x0B \<or> u = 0x0C \<or> u = 0x0D \<or> u = 0x20 \<or> u = 0xA0
     \<or> u = 0x1680 \<or> (0x2000 \<le> u \<and> u \<le> 0x200A) \<or> u = 0x2028 \<or> u = 0x2029
     \<or> u = 0x202F \<or> u = 0x205F \<or> u = 0x3000 \<or> u = 0xFEFF"

definition trim :: "jsstring \<Rightarrow> jsstring" where
  "trim s = rev (dropWhile is_js_space (rev (dropWhile is_js_space s)))"

section \<open>Data model (types.ts)\<close>

datatype Severity = Low | Medium | High | Critical

datatype Priority = Recommended | Optional | Urgent

record RiskAssessment =
  severity :: Severity
  summary :: jsstring
  potentialConsequences :: "jsstring list"
  mitigationSteps :: "jsstring list"

text \<open>The \<^verbatim>\<open>step\<close> of a troubleshooting step is a number; the schema asks for an integer.\<close>

record TroubleshootingStep =
  step :: int
  action :: jsstring
  details :: jsstring

text \<open>Fields \<^verbatim>\<open>fix\<close> and \<^verbatim>\<open>details\<close> of \<^verbatim>\<open>RecommendedFix\<close>.\<close>

record RecommendedFix =
  fix_text :: jsstring
  priority :: Priority
  fix_details :: jsstring

record ToolsAndParts =
  tools :: "jsstring list"
  parts :: "jsstring list"

record DiagnosticReport =
  faultSummary :: jsstring
  possibleCauses :: "jsstring list"
  riskAssessment :: RiskAssessment
  troubleshootingSteps :: "TroubleshootingStep list"
  recommendedFixes :: "RecommendedFix list"
  simplifiedExplanation :: jsstring
  toolsAndParts :: ToolsAndParts

text \<open>Fields \<^verbatim>\<open>text\<close>, \<^verbatim>\<open>image\<close> and \<^verbatim>\<open>audio\<close> of \<^verbatim>\<open>HistoryEntry.userInput\<close>.\<close>

record UserInput =
  input_text :: jsstring
  input_image :: bool
  input_audio :: jsstring

text \<open>
  Fields \<^verbatim>\<open>id\<close>, \<^verbatim>\<open>timestamp\<close> (a \<^verbatim>\<open>Date\<close>, as milliseconds), \<^verbatim>\<open>report\<close> and
  \<^verbatim>\<open>userInput\<close> of \<^verbatim>\<open>HistoryEntry\<close>.
\<close>

record HistoryEntry =
  entry_id :: jsstring
  timestamp :: nat
  entry_report :: DiagnosticReport
  userInput :: UserInput

text \<open>The severity as the string the report carries.\<close>

fun severity_string :: "Severity \<Rightarrow> jsstring" where
  "severity_string Low = js ''Low''"
| "severity_string Medium = js ''Medium''"
| "severity_string High = js ''High''"
| "severity_string Critical = js ''Critical''"

section \<open>Diagnostic client (services/geminiService.ts)\<close>

subsection \<open>JSON texts\<close>

text \<open>
  A value as \<^verbatim>\<open>JSON.parse\<close> builds it. A number keeps the text of its numeral; an object
  keeps its members in the order of the text, and a later member of the same name wins.
\<close>

datatype json =
    JNull
  | JBool bool
  | JNumber jsstring
  | JString jsstring
  | JArray "json list"
  | JObject "(jsstring \<times> json) list"

text \<open>The tokens of the JSON grammar.\<close>

datatype token =
    LBrace | RBrace | LBracket | RBracket | Colon | Comma
  | TString jsstring | TNumber jsstring | TTrue | TFalse | TNull

definition is_json_space :: "16 word \<Rightarrow> bool" where
  "is_json_space u \<longleftrightarrow> u = 0x09 \<or> u = 0x0A \<or> u = 0x0D \<or> u = 0x20"

definition is_digit :: "16 word \<Rightarrow> bool" where
  "is_digit u \<longleftrightarrow> 0x30 \<le> u \<and> u \<le> 0x39"

text \<open>The four hexadecimal digits of a unicode escape give one code unit.\<close>

definition hex_value :: "16 word \<Rightarrow> 16 word option" where
  "hex_value u =
     (if 0x30 \<le> u \<and> u \<le> 0x39 then Some (u - 0x30)
      else if 0x41 \<le> u \<and> u \<le> 0x46 then Some (u - 0x37)
      else if 0x61 \<le> u \<and> u \<le> 0x66 then Some (u - 0x57)
      else None)"

definition hex4 :: "16 word \<Rightarrow> 16 word \<Rightarrow> 16 word \<Rightarrow> 16 word \<Rightarrow> 16 word option" where
  "hex4 a b c d =
     (case (hex_value a, hex_value b, hex_value c, hex_value d) of
        (Some h3, Some h2, Some h1, Some h0) \<Rightarrow> Some (h3 * 0x1000 + h2 * 0x100 + h1 * 0x10 + h0)
      | _ \<Rightarrow> None)"

definition simple_escape :: "16 word \<Rightarrow> 16 word option" where
  "simple_escape u =
     (if u = 0x22 then Some 0x22
      else if u = 0x5C then Some 0x5C
      else if u = 0x2F then Some 0x2F
      else if u = 0x62 then Some 0x08
      else if u = 0x66 then Some 0x0C
      else if u = 0x6E then Some 0x0A
      else if u = 0x72 then Some 0x0D
      else if u = 0x74 then Some 0x09
      else None)"

text \<open>
  The rest of a string after its opening quote: the code units it denotes and the text
  after the closing quote. A control character, an unknown escape and a missing closing
  quote are syntax errors.
\<close>

definition push_unit :: "16 word \<Rightarrow> (jsstring \<times> jsstring) option \<Rightarrow> (jsstring \<times> jsstring) option" where
  "push_unit u r = (case r of None \<Rightarrow> None | Some (s, rest) \<Rightarrow> Some (u # s, rest))"

fun lex_string :: "jsstring \<Rightarrow> (jsstring \<times> jsstring) option" where
  "lex_string [] = None"
| "lex_string (u # us) =
     (if u = 0x22 then Some ([], us)
      else if u = 0x5C then
        (case us of
           [] \<Rightarrow> None
         | e # us' \<Rightarrow>
             if e = 0x75 then
               (case us' of
                  a # b # c # d # us'' \<Rightarrow>
                    (case hex4 a b c d of
                       None \<Rightarrow> None
                     | Some v \<Rightarrow> push_unit v (lex_string us''))
                | _ \<Rightarrow> None)
             else
               (case simple_escape e of
                  None \<Rightarrow> None
                | Some v \<Rightarrow> push_unit v (lex_string us')))
      else if u < 0x20 then None
      else push_unit u (lex_string us))"

text \<open>
  A numeral: an optional minus, \<^verbatim>\<open>0\<close> or a digit sequence without a leading zero, an
  optional fraction and an optional exponent.
\<close>

definition lex_fraction :: "jsstring \<Rightarrow> (jsstring \<times> jsstring) option" where
  "lex_fraction us =
     (case us of
        [] \<Rightarrow> Some ([], us)
      | u # us' \<Rightarrow>
          if u = 0x2E then
            (if takeWhile is_digit us' = [] then None
             else Some (u # takeWhile is_digit us', dropWhile is_digit us'))
          else Some ([], us))"

definition lex_sign :: "jsstring \<Rightarrow> jsstring \<times> jsstring" where
  "lex_sign us =
     (case us of
        [] \<Rightarrow> ([], us)
      | u # us' \<Rightarrow> if u = 0x2B \<or> u = 0x2D then ([u], us') else ([], us))"

definition lex_exponent :: "jsstring \<Rightarrow> (jsstring \<times> jsstring) option" where
  "lex_exponent us =
     (case us of
        [] \<Rightarrow> Some ([], us)
      | u # us' \<Rightarrow>
          if u = 0x65 \<or> u = 0x45 then
            (case lex_sign us' of
               (sg, us'') \<Rightarrow>
                 if takeWhile is_digit us'' = [] then None
                 else Some (u # sg @ takeWhile is_digit us'', dropWhile is_digit us''))
          else Some ([], us))"

definition lex_digits :: "16 word \<Rightarrow> jsstring \<Rightarrow> (jsstring \<times> jsstring) option" where
  "lex_digits d us =
     (if \<not> is_digit d then None
      else
        (case (if d = 0x30 then ([d], us) else (d # takeWhile is_digit us, dropWhile is_digit us)) of
           (ip, r1) \<Rightarrow>
             (case lex_fraction r1 of
                None \<Rightarrow> None
              | Some (fp, r2) \<Rightarrow>
                  (case lex_exponent r2 of
                     None \<Rightarrow> None
                   | Some (ep, r3) \<Rightarrow> Some (ip @ fp @ ep, r3)))))"

definition lex_number :: "16 word \<Rightarrow> jsstring \<Rightarrow> (jsstring \<times> jsstring) option" where
  "lex_number u us =
     (if u = 0x2D then
        (case us of
           [] \<Rightarrow> None
         | d # us' \<Rightarrow> push_unit u (lex_digits d us'))
      else lex_digits u us)"

text \<open>The literals \<^verbatim>\<open>true\<close>, \<^verbatim>\<open>false\<close> and \<^verbatim>\<open>null\<close> are matched after their first letter.\<close>

definition strip_prefix :: "jsstring \<Rightarrow> jsstring \<Rightarrow> jsstring option" where
  "strip_prefix p us = (if take (length p) us = p then Some (drop (length p) us) else None)"

text \<open>
  The text as tokens, \<open>None\<close> on a character that starts no token; \<open>acc\<close> holds the tokens
  read so far, the last one first. Every scanner hands back a rest that is no longer than
  what it was given, which is why the recursion ends.
\<close>

function lex :: "jsstring \<Rightarrow> token list \<Rightarrow> token list option" where
  "lex [] acc = Some (rev acc)"
| "lex (u # us) acc =
     (if is_json_space u then lex us acc
      else if u = 0x7B then lex us (LBrace # acc)
      else if u = 0x7D then lex us (RBrace # acc)
      else if u = 0x5B then lex us (LBracket # acc)
      else if u = 0x5D then lex us (RBracket # acc)
      else if u = 0x3A then lex us (Colon # acc)
      else if u = 0x2C then lex us (Comma # acc)
      else if u = 0x22 then
        (case lex_string us of
           None \<Rightarrow> None
         | Some (s, rest) \<Rightarrow> lex rest (TString s # acc))
      else if u = 0x2D \<or> is_digit u then
        (case lex_number u us of
           None \<Rightarrow> None
         | Some (n, rest) \<Rightarrow> lex rest (TNumber n # acc))
      else if u = 0x74 then
        (case strip_prefix (js ''rue'') us of
           None \<Rightarrow> None
         | Some rest \<Rightarrow> lex rest (TTrue # acc))
      else if u = 0x66 then
        (case strip_prefix (js ''alse'') us of
           None \<Rightarrow> None
         | Some rest \<Rightarrow> lex rest (TFalse # acc))
      else if u = 0x6E then
        (case strip_prefix (js ''ull'') us of
           None \<Rightarrow> None
         | Some rest \<Rightarrow> lex rest (TNull # acc))
      else None)"
  by pat_completeness auto

termination
proof -
  have unit: "\<exists>s'. r = Some (s', rest)" if "push_unit v r = Some (s, rest)" for v r s rest
    using that by (auto simp: push_unit_def split: option.splits)
  have str: "length rest \<le> length us" if "lex_string us = Some (s, rest)" for us s rest
    using that
  proof (induction us arbitrary: s rest rule: lex_string.induct)
    case 1
    then show ?case by simp
  next
    case (2 u us)
    show ?case
    proof (cases "u = 0x22")
      case True
      with 2 show ?thesis by simp
    next
      case nq: False
      show ?thesis
      proof (cases "u = 0x5C")
        case True
        show ?thesis
        proof (cases us)
          case Nil
          with 2(4) nq True show ?thesis by simp
        next
          case (Cons e us')
          show ?thesis
          proof (cases "e = 0x75")
            case eu: True
            from 2(4) nq True Cons eu obtain a b c d us'' v s'
              where us': "us' = a # b # c # d # us''" and h: "hex4 a b c d = Some v"
                and r: "lex_string us'' = Some (s', rest)"
              by (auto split: list.splits option.splits dest!: unit)
            from 2(1) [OF nq True Cons eu us' _ _ _ h r] have "length rest \<le> length us''" by simp
            with Cons us' show ?thesis by simp
          next
            case False
            from 2(4) nq True Cons False obtain v s'
              where h: "simple_escape e = Some v" and r: "lex_string us' = Some (s', rest)"
              by (auto split: option.splits dest!: unit)
            from 2(2) [OF nq True Cons False h r] Cons show ?thesis by simp
          qed
        qed
      next
        case False
        from 2(4) nq False obtain s' where c: "\<not> u < 0x20" and r: "lex_string us = Some (s', rest)"
          by (auto split: if_splits dest!: unit)
        from 2(3) [OF nq False c r] show ?thesis by simp
      qed
    qed
  qed
  have dw: "length (dropWhile is_digit xs) \<le> length xs" for xs
    by (induction xs) auto
  have frac: "length rest \<le> length us" if "lex_fraction us = Some (s, rest)" for us s rest
    using that dw by (auto simp: lex_fraction_def le_SucI split: list.splits if_splits)
  have sign: "length rest \<le> length us" if "lex_sign us = (s, rest)" for us s rest
    using that by (auto simp: lex_sign_def split: list.splits if_splits)
  have expo: "length rest \<le> length us" if a: "lex_exponent us = Some (s, rest)" for us s rest
  proof (cases us)
    case Nil
    with a show ?thesis by (simp add: lex_exponent_def)
  next
    case (Cons u us')
    show ?thesis
    proof (cases "u = 0x65 \<or> u = 0x45")
      case True
      obtain sg us'' where sg: "lex_sign us' = (sg, us'')" by (cases "lex_sign us'")
      from a Cons True sg have "rest = dropWhile is_digit us''"
        by (auto simp: lex_exponent_def split: if_splits)
      with sign [OF sg] dw [of us''] Cons show ?thesis by simp
    next
      case False
      with a Cons show ?thesis by (auto simp: lex_exponent_def)
    qed
  qed
  have digs: "length rest \<le> length us" if a: "lex_digits d us = Some (s, rest)" for d us s rest
  proof -
    define r1 where "r1 = (if d = 0x30 then us else dropWhile is_digit us)"
    have r1: "length r1 \<le> length us"
      by (simp add: r1_def dw)
    from a obtain fp r2 ep
      where f: "lex_fraction r1 = Some (fp, r2)" and e: "lex_exponent r2 = Some (ep, rest)"
      by (auto simp: lex_digits_def r1_def split: if_splits option.splits)
    from frac [OF f] expo [OF e] r1 show ?thesis by simp
  qed
  have num: "length rest \<le> length us" if "lex_number u us = Some (s, rest)" for u us s rest
    using that
    by (auto simp: lex_number_def le_SucI split: if_splits list.splits dest!: unit digs)
  have pre: "length rest \<le> length us" if "strip_prefix p us = Some rest" for p us rest
    using that by (auto simp: strip_prefix_def split: if_splits)
  show ?thesis
    by (relation "measure (\<lambda>(us, acc). length us)") (auto simp: less_Suc_eq_le dest: str num pre)
qed

text \<open>
  The token sequence is read by a pushdown automaton: a frame per open array or object
  (and one per member name that awaits its value), and a mode that says what may come
  next.
\<close>

datatype frame =
    ArrayFrame "json list"
  | ObjectFrame "(jsstring \<times> json) list"
  | PendingKey jsstring

datatype mode =
    ExpectValue | ExpectValueOrEnd | ExpectKeyOrEnd | ExpectKey | ExpectColon
  | ExpectCommaOrEnd | Finished json

fun deliver :: "json \<Rightarrow> frame list \<Rightarrow> (mode \<times> frame list) option" where
  "deliver v [] = Some (Finished v, [])"
| "deliver v (ArrayFrame es # st) = Some (ExpectCommaOrEnd, ArrayFrame (es @ [v]) # st)"
| "deliver v (PendingKey k # ObjectFrame ms # st) = Some (ExpectCommaOrEnd, ObjectFrame (ms @ [(k, v)]) # st)"
| "deliver v _ = None"

fun open_value :: "token \<Rightarrow> frame list \<Rightarrow> (mode \<times> frame list) option" where
  "open_value TNull st = deliver JNull st"
| "open_value TTrue st = deliver (JBool True) st"
| "open_value TFalse st = deliver (JBool False) st"
| "open_value (TNumber n) st = deliver (JNumber n) st"
| "open_value (TString s) st = deliver (JString s) st"
| "open_value LBracket st = Some (ExpectValueOrEnd, ArrayFrame [] # st)"
| "open_value LBrace st = Some (ExpectKeyOrEnd, ObjectFrame [] # st)"
| "open_value _ st = None"

fun close_array :: "frame list \<Rightarrow> (mode \<times> frame list) option" where
  "close_array (ArrayFrame es # st) = deliver (JArray es) st"
| "close_array _ = None"

fun close_object :: "frame list \<Rightarrow> (mode \<times> frame list) option" where
  "close_object (ObjectFrame ms # st) = deliver (JObject ms) st"
| "close_object _ = None"

fun after_comma :: "frame list \<Rightarrow> (mode \<times> frame list) option" where
  "after_comma (ArrayFrame es # st) = Some (ExpectValue, ArrayFrame es # st)"
| "after_comma (ObjectFrame ms # st) = Some (ExpectKey, ObjectFrame ms # st)"
| "after_comma _ = None"

fun step_token :: "token \<Rightarrow> mode \<Rightarrow> frame list \<Rightarrow> (mode \<times> frame list) option" where
  "step_token t ExpectValue st = open_value t st"
| "step_token t ExpectValueOrEnd st = (if t = RBracket then close_array st else open_value t st)"
| "step_token t ExpectKeyOrEnd st =
     (case t of TString k \<Rightarrow> Some (ExpectColon, PendingKey k # st)
      | RBrace \<Rightarrow> close_object st
      | _ \<Rightarrow> None)"
| "step_token t ExpectKey st =
     (case t of TString k \<Rightarrow> Some (ExpectColon, PendingKey k # st) | _ \<Rightarrow> None)"
| "step_token t ExpectColon st = (if t = Colon then Some (ExpectValue, st) else None)"
| "step_token t ExpectCommaOrEnd st =
     (case t of Comma \<Rightarrow> after_comma st
      | RBracket \<Rightarrow> close_array st
      | RBrace \<Rightarrow> close_object st
      | _ \<Rightarrow> None)"
| "step_token t (Finished v) st = None"

fun run_tokens :: "token list \<Rightarrow> mode \<Rightarrow> frame list \<Rightarrow> json option" where
  "run_tokens [] m st = (case m of Finished v \<Rightarrow> Some v | _ \<Rightarrow> None)"
| "run_tokens (t # ts) m st =
     (case step_token t m st of
        None \<Rightarrow> None
      | Some (m', st') \<Rightarrow> run_tokens ts m' st')"

text \<open>\<open>None\<close> is a syntax error.\<close>

definition parse_json :: "jsstring \<Rightarrow> json option" where
  "parse_json s = (case lex s [] of None \<Rightarrow> None | Some ts \<Rightarrow> run_tokens ts ExpectValue [])"

subsection \<open>reportSchema\<close>

text \<open>
  The constant \<^verbatim>\<open>reportSchema\<close>: per object its properties and its \<^verbatim>\<open>required\<close> list. The
  \<^verbatim>\<open>description\<close> strings are left out.
\<close>

datatype schema =
    SString
  | SInteger
  | SEnum "jsstring list"
  | SArray schema
  | SObject "(jsstring \<times> schema) list" "jsstring list"

definition reportSchema :: schema where
  "reportSchema =
     SObject
       [(js ''faultSummary'', SString),
        (js ''possibleCauses'', SArray SString),
        (js ''riskAssessment'',
           SObject
             [(js ''severity'', SEnum [js ''Low'', js ''Medium'', js ''High'', js ''Critical'']),
              (js ''summary'', SString),
              (js ''potentialConsequences'', SArray SString),
              (js ''mitigationSteps'', SArray SString)]
             [js ''severity'', js ''summary'', js ''potentialConsequences'', js ''mitigationSteps'']),
        (js ''troubleshootingSteps'',
           SArray
             (SObject
                [(js ''step'', SInteger), (js ''action'', SString), (js ''details'', SString)]
                [js ''step'', js ''action'', js ''details''])),
        (js ''recommendedFixes'',
           SArray
             (SObject
                [(js ''fix'', SString),
                 (js ''priority'', SEnum [js ''Recommended'', js ''Optional'', js ''Urgent'']),
                 (js ''details'', SString)]
                [js ''fix'', js ''priority'', js ''details''])),
        (js ''simplifiedExplanation'', SString),
        (js ''toolsAndParts'',
           SObject
             [(js ''tools'', SArray SString), (js ''parts'', SArray SString)]
             [js ''tools'', js ''parts''])]
       [js ''faultSummary'', js ''possibleCauses'', js ''riskAssessment'', js ''troubleshootingSteps'',
        js ''recommendedFixes'', js ''simplifiedExplanation'', js ''toolsAndParts'']"

text \<open>The member of an object for a name, as a property read finds it.\<close>

definition get_prop :: "(jsstring \<times> json) list \<Rightarrow> jsstring \<Rightarrow> json option" where
  "get_prop ms k = map_of (rev ms) k"

text \<open>
  A value omits a required field of a schema when, somewhere along the schema, an object
  lacks a member that the \<^verbatim>\<open>required\<close> list of its schema names.
\<close>

fun omits_required :: "schema \<Rightarrow> json \<Rightarrow> bool" where
  "omits_required (SObject properties required) (JObject ms) =
     (list_ex (\<lambda>k. get_prop ms k = None) required
      \<or> list_ex (\<lambda>(k, sch). case get_prop ms k of None \<Rightarrow> False | Some w \<Rightarrow> omits_required sch w)
           properties)"
| "omits_required (SArray items) (JArray vs) = list_ex (omits_required items) vs"
| "omits_required _ _ = False"

subsection \<open>runDiagnostics\<close>

text \<open>The argument \<^verbatim>\<open>{ mimeType, data }\<close> of \<^verbatim>\<open>runDiagnostics\<close>.\<close>

record ImagePayload =
  mimeType :: jsstring
  data :: jsstring

text \<open>
  The request: the user prompt with its placeholders, and the parts, the image first when
  there is one. An absent \<^verbatim>\<open>audioTranscript\<close> is falsy like the empty one. The
  \<^verbatim>\<open>temperature\<close> is left out.
\<close>

definition diagnostic_instruction :: jsstring where
  "diagnostic_instruction =
     js (''You are OmniDiag, an expert AI diagnostic assistant. Analyze the user's input (text, images, audio transcript) to identify faults in any system (e.g., HVAC, electrical, mechanical, automotive, plumbing).'' @ NL @ ''  Your response MUST be a valid JSON object that adheres to the provided schema. Do not include any markdown formatting like ```json.'' @ NL @ ''  Provide a structured, actionable diagnostic report. Be thorough, clear, and professional. '' @ NL @ ''  For the 'riskAssessment', you must provide a detailed breakdown. Go beyond a simple description. Explicitly list at least 2-3 specific 'potentialConsequences' of ignoring the fault, and provide a corresponding list of actionable 'mitigationSteps' to prevent those consequences.'' @ NL @ ''  Include a list of necessary tools and potential replacement parts.'')"

definition userPrompt :: "jsstring \<Rightarrow> jsstring \<Rightarrow> jsstring" where
  "userPrompt text audioTranscript =
     js (NL @ ''    Please perform a diagnostic analysis based on the following information.'' @ NL @ NL @ ''    **User's Written Description:**'' @ NL @ ''    '')
     @ or_else text (js ''No written description provided.'')
     @ js (NL @ NL @ ''    **Transcript from User's Voice Note:**'' @ NL @ ''    '')
     @ or_else audioTranscript (js ''No voice note provided.'')
     @ js (NL @ NL @ ''    Analyze the provided information and generate a complete diagnostic report.'' @ NL @ ''  '')"

datatype part = TextPart jsstring | InlineData ImagePayload

record request =
  request_model :: jsstring
  request_parts :: "part list"
  request_systemInstruction :: jsstring
  responseMimeType :: jsstring
  responseSchema :: schema

definition runDiagnostics_request :: "jsstring \<Rightarrow> ImagePayload option \<Rightarrow> jsstring \<Rightarrow> request" where
  "runDiagnostics_request text image_payload audioTranscript =
     \<lparr>request_model = js ''gemini-2.5-flash'',
      request_parts =
        (case image_payload of None \<Rightarrow> [] | Some i \<Rightarrow> [InlineData i]) @ [TextPart (userPrompt text audioTranscript)],
      request_systemInstruction = diagnostic_instruction,
      responseMimeType = js ''application/json'',
      responseSchema = reportSchema\<rparr>"

text \<open>
  A thrown value is an \<^verbatim>\<open>Error\<close> with its message or something else. The upstream call
  \<^verbatim>\<open>ai.models.generateContent\<close> rejects with a thrown value or responds; \<^verbatim>\<open>response.text\<close>
  is a string or \<^verbatim>\<open>undefined\<close>.
\<close>

datatype thrown = ErrorValue jsstring | OtherValue

datatype upstream = Rejects thrown | Responds "jsstring option"

text \<open>
  What the JavaScript engine contributes: \<^verbatim>\<open>JSON.parse\<close>, which returns the value or
  throws a \<^verbatim>\<open>SyntaxError\<close> (\<open>Inl\<close> its message), and the message of the \<^verbatim>\<open>TypeError\<close> for
  reading \<^verbatim>\<open>trim\<close> of \<^verbatim>\<open>undefined\<close>.
\<close>

record platform =
  JSON_parse :: "jsstring \<Rightarrow> jsstring + json"
  undefined_trim_message :: jsstring

text \<open>The \<^verbatim>\<open>try\<close> block from the response on (lines 158 to 160).\<close>

definition runDiagnostics_try :: "platform \<Rightarrow> upstream \<Rightarrow> thrown + json" where
  "runDiagnostics_try p response =
     (case response of
        Rejects x \<Rightarrow> Inl x
      | Responds None \<Rightarrow> Inl (ErrorValue (undefined_trim_message p))
      | Responds (Some response_text) \<Rightarrow>
          (let jsonString = trim response_text in
           case JSON_parse p jsonString of
             Inl message \<Rightarrow> Inl (ErrorValue message)
           | Inr reportData \<Rightarrow> Inr reportData))"

text \<open>
  \<^verbatim>\<open>runDiagnostics\<close> as a function of what the upstream call does: \<open>Inr\<close> the value it
  returns (cast to \<^verbatim>\<open>DiagnosticReport\<close> without a check), \<open>Inl\<close> the message of the
  \<^verbatim>\<open>Error\<close> it throws.
\<close>

definition runDiagnostics :: "platform \<Rightarrow> upstream \<Rightarrow> jsstring + json" where
  "runDiagnostics p response =
     (case runDiagnostics_try p response of
        Inr reportData \<Rightarrow> Inr reportData
      | Inl (ErrorValue message) \<Rightarrow> Inl (js ''Failed to get diagnostic report from AI: '' @ message)
      | Inl OtherValue \<Rightarrow> Inl (js ''An unknown error occurred during AI diagnosis.''))"

section \<open>Session state (App.tsx)\<close>

text \<open>The one field of a \<^verbatim>\<open>File\<close> that the code reads: its \<^verbatim>\<open>type\<close>.\<close>

record File =
  file_type :: jsstring

text \<open>A chat session as created by \<^verbatim>\<open>ai.chats.create\<close>: the model and the system instruction.\<close>

record Chat =
  chat_model :: jsstring
  systemInstruction :: jsstring

datatype Role = User | Model

record ChatTurn =
  role :: Role
  turn_text :: jsstring

text \<open>
  The \<^verbatim>\<open>useState\<close> cells and the \<^verbatim>\<open>transcriptRef\<close> of the component. The alert threshold
  \<^verbatim>\<open>'None'\<close> (shown as "Disabled") is \<open>None\<close>.
\<close>

record app_state =
  textInput :: jsstring
  imageFile :: "File option"
  imageBase64 :: "jsstring option"
  isRecording :: bool
  audioTranscript :: jsstring
  transcriptRef :: jsstring
  isLoading :: bool
  error :: "jsstring option"
  report :: "DiagnosticReport option"
  history :: "HistoryEntry list"
  activeIndex :: "nat option"
  chat :: "Chat option"
  chatHistory :: "ChatTurn list"
  isChatLoading :: bool
  chatInput :: jsstring
  alertThreshold :: "Severity option"
  activeAlert :: "jsstring option"
  showAlertSettings :: bool

definition initial_state :: app_state where
  "initial_state =
     \<lparr>textInput = [], imageFile = None, imageBase64 = None, isRecording = False,
      audioTranscript = [], transcriptRef = [], isLoading = False, error = None,
      report = None, history = [], activeIndex = None, chat = None, chatHistory = [],
      isChatLoading = False, chatInput = [], alertThreshold = None, activeAlert = None,
      showAlertSettings = False\<rparr>"

text \<open>Truthiness of a \<^verbatim>\<open>string | null\<close>.\<close>

fun truthy :: "jsstring option \<Rightarrow> bool" where
  "truthy None = False"
| "truthy (Some v) = (v \<noteq> [])"

text \<open>
  What a handler asks of its collaborators: the diagnostic client, the chat SDK and the
  speech recognition object. Only \<open>RunDiagnostics\<close> and \<open>SendMessageStream\<close> reach the
  upstream service.
\<close>

datatype effect =
    RunDiagnostics jsstring "ImagePayload option" jsstring
  | ChatsCreate Chat
  | SendMessageStream Chat jsstring
  | RecognitionStart
  | RecognitionStop

text \<open>\<^verbatim>\<open>process.env.API_KEY\<close> and the two clock reads of \<^verbatim>\<open>handleSubmit\<close>.\<close>

record env =
  API_KEY :: "jsstring option"

record clock =
  Date_now :: nat
  new_Date :: nat

subsection \<open>clearImage, clearInputs\<close>

text \<open>
  \<^verbatim>\<open>clearImage\<close> also empties the file input element when it is mounted; that element is not
  part of the state.
\<close>

definition clearImage :: "app_state \<Rightarrow> app_state" where
  "clearImage s = s\<lparr>imageFile := None, imageBase64 := None\<rparr>"

text \<open>
  \<open>rec\<close> is the \<^verbatim>\<open>isRecording\<close> of the render the calling handler closed over.
\<close>

definition clearInputs :: "bool \<Rightarrow> app_state \<Rightarrow> app_state \<times> effect list" where
  "clearInputs rec s =
     (let s1 = (clearImage (s\<lparr>textInput := []\<rparr>))\<lparr>audioTranscript := [], transcriptRef := []\<rparr>
      in if rec then (s1\<lparr>isRecording := False\<rparr>, [RecognitionStop]) else (s1, []))"

subsection \<open>handleSubmit\<close>

definition severityLevels :: "Severity \<Rightarrow> nat" where
  "severityLevels v = (case v of Low \<Rightarrow> 1 | Medium \<Rightarrow> 2 | High \<Rightarrow> 3 | Critical \<Rightarrow> 4)"

definition alert_message :: "DiagnosticReport \<Rightarrow> Severity \<Rightarrow> jsstring" where
  \<open>alert_message newReport t =
     js ''Proactive Alert: The detected risk level is "''
     @ severity_string (severity (riskAssessment newReport))
     @ js ''", which meets or exceeds your threshold of "''
     @ severity_string t
     @ js ''".''\<close>

definition submit_instruction :: "DiagnosticReport \<Rightarrow> jsstring" where
  "submit_instruction newReport =
     js (''You are OmniDiag, an expert AI diagnostic assistant. You've provided the user with a diagnostic report. Now, you must answer their follow-up questions. Maintain the persona of a helpful, expert assistant.'' @ NL @ ''                '' @ NL @ ''                HERE IS THE CONTEXT of the report you generated:'' @ NL @ ''                ---'' @ NL @ ''                Fault Summary: '')
     @ faultSummary newReport
     @ js (NL @ ''                Possible Causes: '')
     @ join (js '', '') (possibleCauses newReport)
     @ js (NL @ ''                Risk: '')
     @ severity_string (severity (riskAssessment newReport))
     @ js '' - ''
     @ summary (riskAssessment newReport)
     @ js (NL @ ''                ---'' @ NL @ ''                Base all your answers on this context and the user's follow-up questions.'')"

definition imagePayload :: "app_state \<Rightarrow> ImagePayload option" where
  "imagePayload c =
     (case (imageFile c, imageBase64 c) of
        (Some f, Some b) \<Rightarrow> if b \<noteq> [] then Some \<lparr>mimeType = file_type f, data = b\<rparr> else None
      | _ \<Rightarrow> None)"

text \<open>The guard of line 151: nothing was provided.\<close>

definition nothing_provided :: "app_state \<Rightarrow> bool" where
  "nothing_provided s \<longleftrightarrow> textInput s = [] \<and> \<not> truthy (imageBase64 s) \<and> audioTranscript s = []"

text \<open>
  \<^verbatim>\<open>handleSubmit\<close> up to its \<^verbatim>\<open>await\<close>: the validation, the resets and the call of the
  diagnostic client.
\<close>

definition handleSubmit_begin :: "app_state \<Rightarrow> app_state \<times> effect list" where
  "handleSubmit_begin s =
     (if nothing_provided s then
        (s\<lparr>error := Some (js ''Please provide a description, image, or voice note to start the diagnosis.'')\<rparr>, [])
      else
        (s\<lparr>isLoading := True, error := None, report := None, activeIndex := None,
           chat := None, chatHistory := [], activeAlert := None\<rparr>,
         [RunDiagnostics (textInput s) (imagePayload s) (audioTranscript s)]))"

text \<open>
  \<^verbatim>\<open>handleSubmit\<close> after the \<^verbatim>\<open>await\<close>. \<open>c\<close> is the state of the render the handler closed
  over (it supplies \<^verbatim>\<open>textInput\<close>, \<^verbatim>\<open>imageFile\<close>, \<^verbatim>\<open>alertThreshold\<close> and \<^verbatim>\<open>isRecording\<close>),
  \<open>s\<close> the state the updates are applied to (it supplies \<^verbatim>\<open>transcriptRef.current\<close> and the
  \<^verbatim>\<open>prevHistory\<close> of the functional update). The client's outcome is \<open>Inl\<close> the message of the
  error it threw, or \<open>Inr\<close> the report, taken at the type \<^verbatim>\<open>DiagnosticReport\<close> that
  \<^verbatim>\<open>runDiagnostics\<close> declares for it.
\<close>

definition raise_alert :: "Severity option \<Rightarrow> DiagnosticReport \<Rightarrow> app_state \<Rightarrow> app_state" where
  "raise_alert threshold newReport s =
     (case threshold of
        None \<Rightarrow> s
      | Some t \<Rightarrow>
          if severityLevels (severity (riskAssessment newReport)) \<ge> severityLevels t
          then s\<lparr>activeAlert := Some (alert_message newReport t)\<rparr>
          else s)"

definition newHistoryEntry :: "clock \<Rightarrow> app_state \<Rightarrow> app_state \<Rightarrow> DiagnosticReport \<Rightarrow> HistoryEntry" where
  "newHistoryEntry clk c s newReport =
     \<lparr>entry_id = toString_nat (Date_now clk),
      timestamp = new_Date clk,
      entry_report = newReport,
      userInput = \<lparr>input_text = textInput c, input_image = (imageFile c \<noteq> None),
                   input_audio = transcriptRef s\<rparr>\<rparr>"

definition open_chat :: "env \<Rightarrow> jsstring \<Rightarrow> app_state \<Rightarrow> app_state \<times> effect list" where
  "open_chat e instruction s =
     (if truthy (API_KEY e) then
        (let chatSession = \<lparr>chat_model = js ''gemini-2.5-flash'', systemInstruction = instruction\<rparr>
         in (s\<lparr>chat := Some chatSession\<rparr>, [ChatsCreate chatSession]))
      else (s, []))"

definition handleSubmit_settle ::
  "env \<Rightarrow> clock \<Rightarrow> app_state \<Rightarrow> jsstring + DiagnosticReport \<Rightarrow> app_state \<Rightarrow> app_state \<times> effect list" where
  "handleSubmit_settle e clk c outcome s =
     (case outcome of
        Inr newReport \<Rightarrow>
          (let s1 = s\<lparr>report := Some newReport\<rparr>;
               s2 = raise_alert (alertThreshold c) newReport s1;
               s3 = s2\<lparr>history := newHistoryEntry clk c s newReport # history s2,
                       activeIndex := Some 0\<rparr>;
               (s4, fx1) = open_chat e (submit_instruction newReport) s3;
               (s5, fx2) = clearInputs (isRecording c) s4
           in (s5\<lparr>isLoading := False\<rparr>, fx1 @ fx2))
      | Inl message \<Rightarrow>
          (s\<lparr>error := Some (or_else message (js ''An unexpected error occurred.'')),
             isLoading := False\<rparr>, []))"

text \<open>
  One whole run of \<^verbatim>\<open>handleSubmit\<close> with no other event between the call and its
  settlement.
\<close>

definition handleSubmit ::
  "env \<Rightarrow> clock \<Rightarrow> jsstring + DiagnosticReport \<Rightarrow> app_state \<Rightarrow> app_state \<times> effect list" where
  "handleSubmit e clk outcome s =
     (case handleSubmit_begin s of
        (s1, []) \<Rightarrow> (s1, [])
      | (s1, call # calls) \<Rightarrow>
          (let (s2, fx) = handleSubmit_settle e clk s outcome s1 in (s2, call # calls @ fx)))"

subsection \<open>handleSelectHistory\<close>

definition select_instruction :: "HistoryEntry \<Rightarrow> jsstring" where
  "select_instruction entry =
     (let newReport = entry_report entry in
      js (''You are OmniDiag, an expert AI diagnostic assistant. You've provided the user with a diagnostic report based on their initial submission. Now, you must answer their follow-up questions.'' @ NL @ ''            '' @ NL @ ''            CONTEXT of the report you generated:'' @ NL @ ''            ---'' @ NL @ ''            Fault Summary: '')
     @ faultSummary newReport
     @ js (NL @ ''            Possible Causes: '')
     @ join (js '', '') (possibleCauses newReport)
     @ js (NL @ ''            Risk: '')
     @ severity_string (severity (riskAssessment newReport))
     @ js '' - ''
     @ summary (riskAssessment newReport)
     @ js (NL @ ''            ---'' @ NL @ ''            The user's original submission included: '')
     @ (if input_text (userInput entry) \<noteq> [] then js ''A text description.'' else [])
     @ js '' ''
     @ (if input_image (userInput entry) then js ''An image.'' else [])
     @ js '' ''
     @ (if input_audio (userInput entry) \<noteq> [] then js ''A voice note.'' else [])
     @ js (NL @ ''            Base all your answers on this context and the user's follow-up questions.''))"

definition handleSelectHistory ::
  "env \<Rightarrow> HistoryEntry \<Rightarrow> nat \<Rightarrow> app_state \<Rightarrow> app_state \<times> effect list" where
  "handleSelectHistory e entry index s =
     open_chat e (select_instruction entry)
       (s\<lparr>report := Some (entry_report entry), activeIndex := Some index,
          chatHistory := [], activeAlert := None\<rparr>)"

text \<open>
  The history list renders one button per entry, \<^verbatim>\<open>history.map((entry, index) => ...)\<close>,
  whose click calls \<^verbatim>\<open>handleSelectHistory(entry, index)\<close>; there is no button beyond the
  list.
\<close>

definition select_history_button :: "env \<Rightarrow> nat \<Rightarrow> app_state \<Rightarrow> app_state \<times> effect list" where
  "select_history_button e i s =
     (if i < length (history s) then handleSelectHistory e (history s ! i) i s else (s, []))"

subsection \<open>handleClearHistory\<close>

text \<open>\<open>confirmed\<close> is the answer of \<^verbatim>\<open>window.confirm\<close>.\<close>

definition handleClearHistory :: "bool \<Rightarrow> app_state \<Rightarrow> app_state" where
  "handleClearHistory confirmed s =
     (if confirmed then
        s\<lparr>history := [], report := None, activeIndex := None, chat := None, chatHistory := []\<rparr>
      else s)"

subsection \<open>handleSendChatMessage\<close>

text \<open>
  \<^verbatim>\<open>handleSendChatMessage\<close> up to its \<^verbatim>\<open>await\<close>: the guard, the user turn and the call of
  \<^verbatim>\<open>chat.sendMessageStream\<close>.
\<close>

definition handleSendChatMessage_begin :: "app_state \<Rightarrow> app_state \<times> effect list" where
  "handleSendChatMessage_begin s =
     (case chat s of
        None \<Rightarrow> (s, [])
      | Some session \<Rightarrow>
          if trim (chatInput s) = [] \<or> isChatLoading s then (s, [])
          else
            (s\<lparr>chatInput := [],
               chatHistory := chatHistory s @ [\<lparr>role = User, turn_text = chatInput s\<rparr>],
               isChatLoading := True\<rparr>,
             [SendMessageStream session (chatInput s)]))"

text \<open>
  What \<^verbatim>\<open>chat.sendMessageStream\<close> does: the call is rejected, or it resolves to a finite
  stream of chunks whose iteration ends normally or throws after the chunks delivered.
\<close>

datatype stream_end = StreamDone | StreamThrows

datatype reply = Rejected | Stream "jsstring list" stream_end

text \<open>
  The updater of line 280: the text of the last turn of \<open>prev\<close> grows by the chunk. On an
  empty log \<^verbatim>\<open>newHistory[newHistory.length - 1]\<close> is \<^verbatim>\<open>undefined\<close> and the update throws
  (\<open>None\<close>).
\<close>

definition append_chunk :: "ChatTurn list \<Rightarrow> jsstring \<Rightarrow> ChatTurn list option" where
  "append_chunk prev chunkText =
     (if prev = [] then None
      else Some (prev[length prev - 1 :=
                   (prev ! (length prev - 1))\<lparr>turn_text := turn_text (prev ! (length prev - 1)) @ chunkText\<rparr>]))"

text \<open>The \<^verbatim>\<open>for await\<close> loop: one update per chunk, in the order of arrival.\<close>

fun stream_chunks :: "jsstring list \<Rightarrow> ChatTurn list \<Rightarrow> ChatTurn list option" where
  "stream_chunks [] turns = Some turns"
| "stream_chunks (chunkText # chunks) turns =
     (case append_chunk turns chunkText of
        None \<Rightarrow> None
      | Some turns' \<Rightarrow> stream_chunks chunks turns')"

definition apology :: jsstring where
  "apology = js ''Sorry, I encountered an error. Please try again.''"

text \<open>The \<^verbatim>\<open>catch\<close> block of \<^verbatim>\<open>handleSendChatMessage\<close>.\<close>

definition chat_catch :: "app_state \<Rightarrow> app_state" where
  "chat_catch s =
     s\<lparr>chatHistory := chatHistory s @ [\<lparr>role = Model, turn_text = apology\<rparr>],
       isChatLoading := False\<rparr>"

text \<open>
  \<^verbatim>\<open>handleSendChatMessage\<close> after the \<^verbatim>\<open>await\<close>; \<open>None\<close> when an update of the chat log
  threw.
\<close>

definition handleSendChatMessage_settle :: "reply \<Rightarrow> app_state \<Rightarrow> app_state option" where
  "handleSendChatMessage_settle r s =
     (case r of
        Rejected \<Rightarrow> Some (chat_catch s)
      | Stream chunks e \<Rightarrow>
          (let s1 = s\<lparr>isChatLoading := False\<rparr>;
               s2 = s1\<lparr>chatHistory := chatHistory s1 @ [\<lparr>role = Model, turn_text = []\<rparr>]\<rparr>
           in case stream_chunks chunks (chatHistory s2) of
                None \<Rightarrow> None
              | Some turns \<Rightarrow>
                  (case e of
                     StreamDone \<Rightarrow> Some (s2\<lparr>chatHistory := turns\<rparr>)
                   | StreamThrows \<Rightarrow> Some (chat_catch (s2\<lparr>chatHistory := turns\<rparr>)))))"

text \<open>
  One whole run of \<^verbatim>\<open>handleSendChatMessage\<close> with no other event between the call and the
  end of the reply.
\<close>

definition handleSendChatMessage :: "reply \<Rightarrow> app_state \<Rightarrow> app_state option \<times> effect list" where
  "handleSendChatMessage r s =
     (case handleSendChatMessage_begin s of
        (s1, []) \<Rightarrow> (Some s1, [])
      | (s1, call # calls) \<Rightarrow> (handleSendChatMessage_settle r s1, call # calls))"

text \<open>
  The same run event by event, since other handlers may run between two of them: the
  \<^verbatim>\<open>onChange\<close> of the chat input (line 592), the stream that opens (lines 274 and 276), and
  the arrival of one chunk (lines 279 to 284).
\<close>

definition setChatInput :: "jsstring \<Rightarrow> app_state \<Rightarrow> app_state" where
  "setChatInput v s = s\<lparr>chatInput := v\<rparr>"

definition reply_opened :: "app_state \<Rightarrow> app_state" where
  "reply_opened s =
     (let s1 = s\<lparr>isChatLoading := False\<rparr>
      in s1\<lparr>chatHistory := chatHistory s1 @ [\<lparr>role = Model, turn_text = []\<rparr>]\<rparr>)"

definition reply_chunk :: "jsstring \<Rightarrow> app_state \<Rightarrow> app_state option" where
  "reply_chunk chunkText s =
     (case append_chunk (chatHistory s) chunkText of
        None \<Rightarrow> None
      | Some turns \<Rightarrow> Some (s\<lparr>chatHistory := turns\<rparr>))"

fun reply_chunks :: "jsstring list \<Rightarrow> app_state \<Rightarrow> app_state option" where
  "reply_chunks [] s = Some s"
| "reply_chunks (chunkText # chunks) s =
     (case reply_chunk chunkText s of
        None \<Rightarrow> None
      | Some s' \<Rightarrow> reply_chunks chunks s')"

subsection \<open>Speech recognition handlers\<close>

text \<open>
  A result event of the recognition object: \<^verbatim>\<open>event.resultIndex\<close> and, for each entry of
  \<^verbatim>\<open>event.results\<close>, its \<^verbatim>\<open>isFinal\<close> flag and the \<^verbatim>\<open>transcript\<close> of its first alternative.
\<close>

record SpeechResult =
  isFinal :: bool
  transcript :: jsstring

record SpeechEvent =
  resultIndex :: nat
  results :: "SpeechResult list"

text \<open>
  The loop of \<^verbatim>\<open>recognition.onresult\<close> over the results from \<^verbatim>\<open>resultIndex\<close> on; the pair is
  (\<^verbatim>\<open>interimTranscript\<close>, \<^verbatim>\<open>finalTranscript\<close>).
\<close>

fun onresult_loop :: "SpeechResult list \<Rightarrow> jsstring \<times> jsstring \<Rightarrow> jsstring \<times> jsstring" where
  "onresult_loop [] acc = acc"
| "onresult_loop (r # rs) (interimTranscript, finalTranscript) =
     onresult_loop rs
       (if isFinal r then (interimTranscript, finalTranscript @ transcript r)
        else (interimTranscript @ transcript r, finalTranscript))"

definition recognition_onresult :: "SpeechEvent \<Rightarrow> app_state \<Rightarrow> app_state" where
  "recognition_onresult event s =
     (let (interimTranscript, finalTranscript) =
            onresult_loop (drop (resultIndex event) (results event)) ([], [])
      in s\<lparr>transcriptRef := finalTranscript,
           audioTranscript := finalTranscript @ interimTranscript\<rparr>)"

definition recognition_onerror :: "jsstring \<Rightarrow> app_state \<Rightarrow> app_state" where
  "recognition_onerror event_error s =
     s\<lparr>error := Some (js ''Speech recognition error: '' @ event_error), isRecording := False\<rparr>"

text \<open>
  \<open>start_throws\<close> tells whether \<^verbatim>\<open>recognition.start()\<close> throws. The handlers are registered
  anew by the effect whenever \<^verbatim>\<open>isRecording\<close> changes, so \<^verbatim>\<open>onend\<close> reads its current value.
\<close>

definition recognition_onend :: "bool \<Rightarrow> app_state \<Rightarrow> app_state \<times> effect list" where
  "recognition_onend start_throws s =
     (if isRecording s then
        (if start_throws then (s\<lparr>isRecording := False\<rparr>, [RecognitionStart])
         else (s, [RecognitionStart]))
      else (s, []))"

text \<open>\<open>supported\<close> tells whether the browser has a \<^verbatim>\<open>SpeechRecognition\<close> constructor.\<close>

definition handleRecordClick :: "bool \<Rightarrow> app_state \<Rightarrow> app_state \<times> effect list" where
  "handleRecordClick supported s =
     (if \<not> supported then
        (s\<lparr>error := Some (js ''Sorry, your browser does not support Speech Recognition.'')\<rparr>, [])
      else if isRecording s then
        (s\<lparr>isRecording := False, audioTranscript := transcriptRef s\<rparr>, [RecognitionStop])
      else
        (s\<lparr>transcriptRef := [], audioTranscript := [], isRecording := True\<rparr>, [RecognitionStart]))"

section \<open>Sample inputs\<close>

definition example_report :: DiagnosticReport where
  "example_report =
     \<lparr>faultSummary = js ''Compressor does not start'',
      possibleCauses = [js ''Failed capacitor'', js ''Tripped breaker''],
      riskAssessment = \<lparr>severity = Critical, summary = js ''Overheating'',
        potentialConsequences = [js ''Motor burnout''], mitigationSteps = [js ''Cut power'']\<rparr>,
      troubleshootingSteps = [\<lparr>step = 1, action = js ''Check breaker'', details = js ''Reset it''\<rparr>],
      recommendedFixes = [\<lparr>fix_text = js ''Replace capacitor'', priority = Urgent, fix_details = js ''45 uF''\<rparr>],
      simplifiedExplanation = js ''A worn part stops the motor'',
      toolsAndParts = \<lparr>tools = [js ''Multimeter''], parts = [js ''Capacitor'']\<rparr>\<rparr>"

definition example_env :: env where
  "example_env = \<lparr>API_KEY = Some (js ''k'')\<rparr>"

definition example_clock :: clock where
  "example_clock = \<lparr>Date_now = 1700000000000, new_Date = 1700000000001\<rparr>"

text \<open>The user typed a description and set the alert threshold to High.\<close>

definition example_input :: app_state where
  "example_input = initial_state\<lparr>textInput := js ''AC hums'', alertThreshold := Some High\<rparr>"

text \<open>A report is on display, its chat is open and a question is typed.\<close>

definition example_chat :: app_state where
  "example_chat =
     initial_state\<lparr>report := Some example_report,
       chat := Some \<lparr>chat_model = js ''gemini-2.5-flash'', systemInstruction = submit_instruction example_report\<rparr>,
       chatInput := js ''Why?''\<rparr>"

text \<open>
  A second question sent while the first reply is streaming: the first question is sent, the
  stream opens and delivers "The ", the user types "And?" and sends it, and the stream
  delivers "issue ".
\<close>

definition example_second_send :: "app_state option" where
  "example_second_send =
     (case reply_chunk (js ''The '') (reply_opened (fst (handleSendChatMessage_begin example_chat))) of
        None \<Rightarrow> None
      | Some s \<Rightarrow>
          reply_chunk (js ''issue '') (fst (handleSendChatMessage_begin (setChatInput (js ''And?'') s))))"

definition example_entry :: HistoryEntry where
  "example_entry =
     \<lparr>entry_id = js ''1700000000000'', timestamp = 1700000000001, entry_report = example_report,
      userInput = \<lparr>input_text = js ''AC hums'', input_image = False, input_audio = []\<rparr>\<rparr>"

definition example_listed :: app_state where
  "example_listed =
     initial_state\<lparr>history := [example_entry], activeAlert := Some (js ''earlier alert''),
       chatHistory := [\<lparr>role = User, turn_text = js ''Why?''\<rparr>]\<rparr>"

text \<open>
  A dictation: recording is started and a first phrase is finalised; then the recognition
  stream ends, is restarted, and reports an interim result of its new session.
\<close>

definition example_heard :: app_state where
  "example_heard =
     recognition_onresult \<lparr>resultIndex = 0, results = [\<lparr>isFinal = True, transcript = js ''hello ''\<rparr>]\<rparr>
       (fst (handleRecordClick True initial_state))"

definition example_resumed :: app_state where
  "example_resumed =
     recognition_onresult \<lparr>resultIndex = 0, results = [\<lparr>isFinal = False, transcript = js ''wor''\<rparr>]\<rparr>
       (fst (recognition_onend False example_heard))"

text \<open>
  An engine to run the client on: \<open>parse_json\<close> for \<^verbatim>\<open>JSON.parse\<close>, with fixed messages
  (the wording of an engine's messages is its own).
\<close>

definition reference_platform :: platform where
  "reference_platform =
     \<lparr>JSON_parse = (\<lambda>s. case parse_json s of None \<Rightarrow> Inl (js ''Unexpected token'') | Some v \<Rightarrow> Inr v),
      undefined_trim_message = js ''Cannot read properties of undefined (reading 'trim')''\<rparr>"

text \<open>
  A response that is valid JSON and a complete report but for \<^verbatim>\<open>riskAssessment.severity\<close>,
  the value it parses to, and that value with the severity added.
\<close>

definition example_unrated_text :: jsstring where
  "example_unrated_text =
     js ('' {\"faultSummary\":\"Fan noise\",\"possibleCauses\":[\"Worn bearing\"],\"riskAssessment\":{\"summary\":\"Wear\",\"potentialConsequences\":[],\"mitigationSteps\":[]},\"troubleshootingSteps\":[],\"recommendedFixes\":[],\"simplifiedExplanation\":\"Old fan\",\"toolsAndParts\":{\"tools\":[],\"parts\":[\"Fan\"]}}'' @ NL)"

definition example_report_members :: "(jsstring \<times> json) list \<Rightarrow> (jsstring \<times> json) list" where
  "example_report_members risk =
     [(js ''faultSummary'', JString (js ''Fan noise'')),
      (js ''possibleCauses'', JArray [JString (js ''Worn bearing'')]),
      (js ''riskAssessment'', JObject risk),
      (js ''troubleshootingSteps'', JArray []),
      (js ''recommendedFixes'', JArray []),
      (js ''simplifiedExplanation'', JString (js ''Old fan'')),
      (js ''toolsAndParts'', JObject [(js ''tools'', JArray []), (js ''parts'', JArray [JString (js ''Fan'')])])]"

definition example_unrated_value :: json where
  "example_unrated_value =
     JObject (example_report_members
       [(js ''summary'', JString (js ''Wear'')),
        (js ''potentialConsequences'', JArray []),
        (js ''mitigationSteps'', JArray [])])"

definition example_rated_value :: json where
  "example_rated_value =
     JObject (example_report_members
       [(js ''severity'', JString (js ''High'')),
        (js ''summary'', JString (js ''Wear'')),
        (js ''potentialConsequences'', JArray []),
        (js ''mitigationSteps'', JArray [])])"

section \<open>Properties\<close>

subsection \<open>Parts of a handler\<close>

lemma clearInputs_fst:
  "fst (clearInputs r s) =
     (if r then s\<lparr>textInput := [], imageFile := None, imageBase64 := None,
                  audioTranscript := [], transcriptRef := [], isRecording := False\<rparr>
      else s\<lparr>textInput := [], imageFile := None, imageBase64 := None,
               audioTranscript := [], transcriptRef := []\<rparr>)"
  by (simp add: clearInputs_def clearImage_def)

lemma open_chat_fst:
  "fst (open_chat e i s) =
     (if truthy (API_KEY e)
      then s\<lparr>chat := Some \<lparr>chat_model = js ''gemini-2.5-flash'', systemInstruction = i\<rparr>\<rparr>
      else s)"
  by (simp add: open_chat_def Let_def)

lemma open_chat_snd:
  "snd (open_chat e i s) =
     (if truthy (API_KEY e)
      then [ChatsCreate \<lparr>chat_model = js ''gemini-2.5-flash'', systemInstruction = i\<rparr>]
      else [])"
  by (simp add: open_chat_def Let_def)

lemma raise_alert_eq:
  "raise_alert t r s =
     s\<lparr>activeAlert :=
         (case t of None \<Rightarrow> activeAlert s
          | Some t' \<Rightarrow> if severityLevels t' \<le> severityLevels (severity (riskAssessment r))
                       then Some (alert_message r t') else activeAlert s)\<rparr>"
  by (simp add: raise_alert_def split: option.splits)

lemma handleSubmit_begin_accepts:
  assumes "\<not> nothing_provided s"
  shows "handleSubmit_begin s =
     (s\<lparr>isLoading := True, error := None, report := None, activeIndex := None,
        chat := None, chatHistory := [], activeAlert := None\<rparr>,
      [RunDiagnostics (textInput s) (imagePayload s) (audioTranscript s)])"
  using assms by (simp add: handleSubmit_begin_def)

lemma handleSubmit_accepts:
  assumes "\<not> nothing_provided s"
  shows "fst (handleSubmit e clk outcome s) =
           fst (handleSubmit_settle e clk s outcome (fst (handleSubmit_begin s)))"
    and "snd (handleSubmit e clk outcome s) =
           RunDiagnostics (textInput s) (imagePayload s) (audioTranscript s)
             # snd (handleSubmit_settle e clk s outcome (fst (handleSubmit_begin s)))"
  using assms by (simp_all add: handleSubmit_def handleSubmit_begin_accepts split_def Let_def)

lemma handleSubmit_settle_success:
  "fst (handleSubmit_settle e clk c (Inr r) s) =
     (fst (clearInputs (isRecording c)
        (fst (open_chat e (submit_instruction r)
           ((raise_alert (alertThreshold c) r (s\<lparr>report := Some r\<rparr>))
              \<lparr>history := newHistoryEntry clk c s r # history s, activeIndex := Some 0\<rparr>)))))
       \<lparr>isLoading := False\<rparr>"
  by (simp add: handleSubmit_settle_def Let_def split_def raise_alert_eq)

lemma handleSubmit_settle_failure:
  "handleSubmit_settle e clk c (Inl message) s =
     (s\<lparr>error := Some (or_else message (js ''An unexpected error occurred.'')),
        isLoading := False\<rparr>, [])"
  by (simp add: handleSubmit_settle_def)

text \<open>
  Whatever happened between the call and its settlement, the settlement puts the new
  entry in front of the history as it then is.
\<close>

lemma handleSubmit_settle_prepends:
  "history (fst (handleSubmit_settle e clk c (Inr r) s)) = newHistoryEntry clk c s r # history s"
  "report (fst (handleSubmit_settle e clk c (Inr r) s)) = Some r"
  unfolding handleSubmit_settle_success
  by (simp_all add: clearInputs_fst open_chat_fst raise_alert_eq)

text \<open>\<^verbatim>\<open>handleClearHistory\<close> never writes the alert.\<close>

lemma handleClearHistory_alert: "activeAlert (handleClearHistory confirmed s) = activeAlert s"
  by (simp add: handleClearHistory_def)

lemma handleClearHistory_confirmed:
  "handleClearHistory True s =
     s\<lparr>history := [], report := None, activeIndex := None, chat := None, chatHistory := []\<rparr>"
  by (simp add: handleClearHistory_def)

text \<open>The state after a submission that the client answered with a report.\<close>

lemma handleSubmit_success_fields:
  assumes "\<not> nothing_provided s"
  shows "history (fst (handleSubmit e clk (Inr r) s)) = newHistoryEntry clk s s r # history s"
    and "report (fst (handleSubmit e clk (Inr r) s)) = Some r"
    and "activeIndex (fst (handleSubmit e clk (Inr r) s)) = Some 0"
    and "activeAlert (fst (handleSubmit e clk (Inr r) s)) =
           (case alertThreshold s of None \<Rightarrow> None
            | Some t \<Rightarrow> if severityLevels t \<le> severityLevels (severity (riskAssessment r))
                        then Some (alert_message r t) else None)"
    and "textInput (fst (handleSubmit e clk (Inr r) s)) = []"
    and "imageFile (fst (handleSubmit e clk (Inr r) s)) = None"
    and "imageBase64 (fst (handleSubmit e clk (Inr r) s)) = None"
    and "audioTranscript (fst (handleSubmit e clk (Inr r) s)) = []"
    and "transcriptRef (fst (handleSubmit e clk (Inr r) s)) = []"
    and "chatHistory (fst (handleSubmit e clk (Inr r) s)) = []"
    and "isLoading (fst (handleSubmit e clk (Inr r) s)) = False"
    and "error (fst (handleSubmit e clk (Inr r) s)) = None"
  unfolding handleSubmit_accepts(1) [OF assms] handleSubmit_settle_success
    handleSubmit_begin_accepts [OF assms]
  by (simp_all add: clearInputs_fst open_chat_fst raise_alert_eq newHistoryEntry_def
        split: option.splits)

lemma handleSubmit_success_chat:
  assumes "\<not> nothing_provided s" and "truthy (API_KEY e)"
  shows "chat (fst (handleSubmit e clk (Inr r) s)) =
           Some \<lparr>chat_model = js ''gemini-2.5-flash'', systemInstruction = submit_instruction r\<rparr>"
  unfolding handleSubmit_accepts(1) [OF assms(1)] handleSubmit_settle_success
    handleSubmit_begin_accepts [OF assms(1)]
  using assms(2) by (simp add: clearInputs_fst open_chat_fst raise_alert_eq)

lemma example_input_provided: "\<not> nothing_provided example_input"
  by (simp add: example_input_def initial_state_def nothing_provided_def js_def)


subsection \<open>Submitting a case\<close>

text \<open>
  C9. A submission whose text, image and transcript are all empty is rejected: the
  validation message is stored as the error, no call is issued (the list of effects is
  empty), and the history and every other field of the state stay as they were.
\<close>

theorem C9_empty_submission_rejected:
  assumes "textInput s = []" and "\<not> truthy (imageBase64 s)" and "audioTranscript s = []"
  shows "handleSubmit e clk outcome s =
           (s\<lparr>error := Some (js ''Please provide a description, image, or voice note to start the diagnosis.'')\<rparr>, [])"
  using assms by (simp add: handleSubmit_def handleSubmit_begin_def nothing_provided_def)

theorem C9_empty_submission_rejected_witness:
  "textInput initial_state = [] \<and> \<not> truthy (imageBase64 initial_state)
   \<and> audioTranscript initial_state = []
   \<and> snd (handleSubmit example_env example_clock (Inr example_report) initial_state) = []
   \<and> history (fst (handleSubmit example_env example_clock (Inr example_report) initial_state)) = []
   \<and> error (fst (handleSubmit example_env example_clock (Inr example_report) initial_state)) \<noteq> None"
  using C9_empty_submission_rejected [of initial_state example_env example_clock "Inr example_report"]
  by (simp add: initial_state_def)

text \<open>
  C8. When the diagnostic client fails on an accepted submission, the message of its error
  is stored and loading ends, the text, the image and the transcript are what was
  submitted, the history is unchanged and no report is active.
\<close>

theorem C8_client_failure:
  assumes "\<not> nothing_provided s"
  shows "error (fst (handleSubmit e clk (Inl message) s))
           = Some (or_else message (js ''An unexpected error occurred.''))
       \<and> isLoading (fst (handleSubmit e clk (Inl message) s)) = False
       \<and> textInput (fst (handleSubmit e clk (Inl message) s)) = textInput s
       \<and> imageFile (fst (handleSubmit e clk (Inl message) s)) = imageFile s
       \<and> imageBase64 (fst (handleSubmit e clk (Inl message) s)) = imageBase64 s
       \<and> audioTranscript (fst (handleSubmit e clk (Inl message) s)) = audioTranscript s
       \<and> transcriptRef (fst (handleSubmit e clk (Inl message) s)) = transcriptRef s
       \<and> history (fst (handleSubmit e clk (Inl message) s)) = history s
       \<and> report (fst (handleSubmit e clk (Inl message) s)) = None
       \<and> activeIndex (fst (handleSubmit e clk (Inl message) s)) = None"
  unfolding handleSubmit_accepts(1) [OF assms] handleSubmit_settle_failure
    handleSubmit_begin_accepts [OF assms]
  by simp

theorem C8_client_failure_witness:
  "\<not> nothing_provided example_input
   \<and> error (fst (handleSubmit example_env example_clock (Inl (js ''Failed'')) example_input))
       = Some (js ''Failed'')
   \<and> textInput (fst (handleSubmit example_env example_clock (Inl (js ''Failed'')) example_input))
       = js ''AC hums''
   \<and> report (fst (handleSubmit example_env example_clock (Inl (js ''Failed'')) example_input)) = None
   \<and> history (fst (handleSubmit example_env example_clock (Inl (js ''Failed'')) example_input)) = []"
  using C8_client_failure [OF example_input_provided, of example_env example_clock "js ''Failed''"]
    example_input_provided
  by (simp add: example_input_def initial_state_def or_else_def js_def)

text \<open>
  C4. When the diagnostic client answers an accepted submission with a report, the history
  becomes one new entry followed by the earlier entries in their order, the new entry
  stores the report, the active report is that report, and the text, the image and the
  transcript are cleared.
\<close>

theorem C4_success_prepends_entry:
  assumes "\<not> nothing_provided s"
  shows "history (fst (handleSubmit e clk (Inr newReport) s))
           = newHistoryEntry clk s s newReport # history s
       \<and> entry_report (newHistoryEntry clk s s newReport) = newReport
       \<and> report (fst (handleSubmit e clk (Inr newReport) s)) = Some newReport
       \<and> activeIndex (fst (handleSubmit e clk (Inr newReport) s)) = Some 0
       \<and> textInput (fst (handleSubmit e clk (Inr newReport) s)) = []
       \<and> imageFile (fst (handleSubmit e clk (Inr newReport) s)) = None
       \<and> imageBase64 (fst (handleSubmit e clk (Inr newReport) s)) = None
       \<and> audioTranscript (fst (handleSubmit e clk (Inr newReport) s)) = []
       \<and> transcriptRef (fst (handleSubmit e clk (Inr newReport) s)) = []"
  using handleSubmit_success_fields [OF assms] by (simp add: newHistoryEntry_def)

theorem C4_success_prepends_entry_witness:
  "\<not> nothing_provided example_input
   \<and> length (history (fst (handleSubmit example_env example_clock (Inr example_report) example_input))) = 1
   \<and> report (fst (handleSubmit example_env example_clock (Inr example_report) example_input))
       = Some example_report
   \<and> textInput (fst (handleSubmit example_env example_clock (Inr example_report) example_input)) = []"
  using C4_success_prepends_entry [OF example_input_provided, of example_env example_clock example_report]
    example_input_provided
  by (simp add: example_input_def initial_state_def)

text \<open>
  C2. After a submission that produced a report of severity \<open>s\<close>: with the threshold
  disabled no alert is raised; with a threshold \<open>t\<close> the alert is raised exactly when the
  level of \<open>s\<close> is at least the level of \<open>t\<close>, and it is then the one message that quotes
  \<open>s\<close> and \<open>t\<close>. The levels order the severities as Low, Medium, High, Critical.
\<close>

theorem C2_alert_rule:
  assumes "\<not> nothing_provided s"
  shows \<open>activeAlert (fst (handleSubmit e clk (Inr newReport) s)) =
     (case alertThreshold s of
        None \<Rightarrow> None
      | Some t \<Rightarrow>
          if severityLevels (severity (riskAssessment newReport)) \<ge> severityLevels t
          then Some (js ''Proactive Alert: The detected risk level is "''
                 @ severity_string (severity (riskAssessment newReport))
                 @ js ''", which meets or exceeds your threshold of "''
                 @ severity_string t @ js ''".'')
          else None)
     \<and> severityLevels Low < severityLevels Medium
     \<and> severityLevels Medium < severityLevels High
     \<and> severityLevels High < severityLevels Critical\<close>
  using handleSubmit_success_fields(4) [OF assms, of e clk newReport]
  by (simp add: alert_message_def severityLevels_def split: option.splits)

theorem C2_alert_rule_witness:
  "\<not> nothing_provided example_input \<and>
   activeAlert (fst (handleSubmit example_env example_clock (Inr example_report) example_input))
     = Some (alert_message example_report High)"
  using C2_alert_rule [OF example_input_provided, of example_env example_clock example_report]
    example_input_provided
  by (simp add: example_input_def initial_state_def example_report_def severityLevels_def
        alert_message_def)

subsection \<open>The history list\<close>

text \<open>
  C10. Selecting the entry at an index \<open>i\<close> of the history, whatever report was active,
  makes the report stored at \<open>i\<close> the active report, empties the chat log, clears the
  alert and leaves the history as it was. It opens a chat session on the model
  \<^verbatim>\<open>gemini-2.5-flash\<close> whose system instruction carries the fault summary of the stored
  report, its possible causes joined by commas, its severity and risk summary, and which
  of text, image and voice note the submission had. The one effect is the creation of that
  session, so the diagnostic client is not called.
\<close>

theorem C10_select_history:
  assumes "i < length (history s)" and "truthy (API_KEY e)"
  shows "(let entry = history s ! i;
              stored = entry_report entry;
              session =
                \<lparr>chat_model = js ''gemini-2.5-flash'',
                 systemInstruction =
                   js (''You are OmniDiag, an expert AI diagnostic assistant. You've provided the user with a diagnostic report based on their initial submission. Now, you must answer their follow-up questions.'' @ NL @ ''            '' @ NL @ ''            CONTEXT of the report you generated:'' @ NL @ ''            ---'' @ NL @ ''            Fault Summary: '')
                   @ faultSummary stored
                   @ js (NL @ ''            Possible Causes: '')
                   @ join (js '', '') (possibleCauses stored)
                   @ js (NL @ ''            Risk: '')
                   @ severity_string (severity (riskAssessment stored))
                   @ js '' - ''
                   @ summary (riskAssessment stored)
                   @ js (NL @ ''            ---'' @ NL @ ''            The user's original submission included: '')
                   @ (if input_text (userInput entry) \<noteq> [] then js ''A text description.'' else [])
                   @ js '' ''
                   @ (if input_image (userInput entry) then js ''An image.'' else [])
                   @ js '' ''
                   @ (if input_audio (userInput entry) \<noteq> [] then js ''A voice note.'' else [])
                   @ js (NL @ ''            Base all your answers on this context and the user's follow-up questions.'')\<rparr>
          in report (fst (select_history_button e i s)) = Some stored
           \<and> chatHistory (fst (select_history_button e i s)) = []
           \<and> activeAlert (fst (select_history_button e i s)) = None
           \<and> chat (fst (select_history_button e i s)) = Some session
           \<and> activeIndex (fst (select_history_button e i s)) = Some i
           \<and> history (fst (select_history_button e i s)) = history s
           \<and> snd (select_history_button e i s) = [ChatsCreate session])"
  using assms
  by (simp add: select_history_button_def handleSelectHistory_def open_chat_fst open_chat_snd
        select_instruction_def Let_def)

theorem C10_select_history_witness:
  "0 < length (history example_listed) \<and> truthy (API_KEY example_env)
   \<and> report (fst (select_history_button example_env 0 example_listed)) = Some example_report
   \<and> chatHistory (fst (select_history_button example_env 0 example_listed)) = []
   \<and> activeAlert (fst (select_history_button example_env 0 example_listed)) = None
   \<and> map_option systemInstruction (chat (fst (select_history_button example_env 0 example_listed)))
       = Some (js (''You are OmniDiag, an expert AI diagnostic assistant. You've provided the user with a diagnostic report based on their initial submission. Now, you must answer their follow-up questions.'' @ NL @ ''            '' @ NL @ ''            CONTEXT of the report you generated:'' @ NL @ ''            ---'' @ NL @ ''            Fault Summary: Compressor does not start'' @ NL @ ''            Possible Causes: Failed capacitor, Tripped breaker'' @ NL @ ''            Risk: Critical - Overheating'' @ NL @ ''            ---'' @ NL @ ''            The user's original submission included: A text description.  '' @ NL @ ''            Base all your answers on this context and the user's follow-up questions.''))"
  using C10_select_history [of 0 example_listed example_env]
  by (simp add: example_listed_def initial_state_def example_env_def example_entry_def
        example_report_def js_def Let_def)

text \<open>
  C3. Clearing the history, once confirmed, empties the history and clears the active
  report, the chat session and the chat log. It does not touch the alert: after the
  sample submission has raised its alert and the history is cleared, the alert is still
  raised although no report is left.
\<close>

theorem C3_clear_history_keeps_alert:
  "activeAlert (handleClearHistory True
      (fst (handleSubmit example_env example_clock (Inr example_report) example_input)))
     = Some (alert_message example_report High)
   \<and> history (handleClearHistory True
      (fst (handleSubmit example_env example_clock (Inr example_report) example_input))) = []
   \<and> report (handleClearHistory True
      (fst (handleSubmit example_env example_clock (Inr example_report) example_input))) = None
   \<and> chat (handleClearHistory True
      (fst (handleSubmit example_env example_clock (Inr example_report) example_input))) = None
   \<and> chatHistory (handleClearHistory True
      (fst (handleSubmit example_env example_clock (Inr example_report) example_input))) = []"
  using handleSubmit_success_fields(4) [OF example_input_provided, of example_env example_clock example_report]
  by (simp add: handleClearHistory_def example_input_def initial_state_def example_report_def
        severityLevels_def)

subsection \<open>The follow-up chat\<close>

lemma append_chunk_snoc:
  "append_chunk (turns @ [t]) c = Some (turns @ [t\<lparr>turn_text := turn_text t @ c\<rparr>])"
  by (simp add: append_chunk_def)

text \<open>The loop touches the last turn only, and appends the chunks to it in their order.\<close>

lemma stream_chunks_snoc:
  "stream_chunks chunks (turns @ [t]) = Some (turns @ [t\<lparr>turn_text := turn_text t @ concat chunks\<rparr>])"
  by (induction chunks arbitrary: t) (simp_all add: append_chunk_snoc)

lemma stream_chunks_append:
  "stream_chunks (cs1 @ cs2) turns =
     (case stream_chunks cs1 turns of None \<Rightarrow> None | Some turns' \<Rightarrow> stream_chunks cs2 turns')"
  by (induction cs1 arbitrary: turns) (simp_all split: option.splits)

lemma handleSendChatMessage_begin_accepts:
  assumes "chat s = Some session" and "trim (chatInput s) \<noteq> []" and "\<not> isChatLoading s"
  shows "handleSendChatMessage_begin s =
     (s\<lparr>chatInput := [],
        chatHistory := chatHistory s @ [\<lparr>role = User, turn_text = chatInput s\<rparr>],
        isChatLoading := True\<rparr>,
      [SendMessageStream session (chatInput s)])"
  using assms by (simp add: handleSendChatMessage_begin_def)

lemma handleSendChatMessage_settle_stream:
  "handleSendChatMessage_settle (Stream chunks e) s =
     (case e of
        StreamDone \<Rightarrow>
          Some (s\<lparr>isChatLoading := False,
                  chatHistory := chatHistory s @ [\<lparr>role = Model, turn_text = concat chunks\<rparr>]\<rparr>)
      | StreamThrows \<Rightarrow>
          Some (s\<lparr>isChatLoading := False,
                  chatHistory := chatHistory s @ [\<lparr>role = Model, turn_text = concat chunks\<rparr>,
                                                 \<lparr>role = Model, turn_text = apology\<rparr>]\<rparr>))"
  by (simp add: handleSendChatMessage_settle_def Let_def stream_chunks_snoc chat_catch_def
        split: stream_end.splits)

lemma example_chat_ready:
  "chat example_chat = Some \<lparr>chat_model = js ''gemini-2.5-flash'', systemInstruction = submit_instruction example_report\<rparr>"
  "trim (chatInput example_chat) \<noteq> []"
  "\<not> isChatLoading example_chat"
  by (simp_all add: example_chat_def initial_state_def trim_def js_def is_js_space_def)

text \<open>
  With no other event between the call and the end of the reply, the chat log ends up as
  the earlier turns, unchanged, then the user turn, then one assistant turn whose text is
  the concatenation of the fragments in their order of arrival.
\<close>

lemma uninterrupted_reply_concatenates:
  assumes "chat s = Some session" and "trim (chatInput s) \<noteq> []" and "\<not> isChatLoading s"
  shows "fst (handleSendChatMessage (Stream chunks StreamDone) s) =
           Some (s\<lparr>chatInput := [],
                   isChatLoading := False,
                   chatHistory := chatHistory s @ [\<lparr>role = User, turn_text = chatInput s\<rparr>,
                                                  \<lparr>role = Model, turn_text = concat chunks\<rparr>]\<rparr>)"
  by (simp add: handleSendChatMessage_def handleSendChatMessage_begin_accepts [OF assms]
        handleSendChatMessage_settle_stream)

lemma uninterrupted_reply_example:
  "chat example_chat \<noteq> None \<and> trim (chatInput example_chat) \<noteq> [] \<and> \<not> isChatLoading example_chat
   \<and> map_option chatHistory
        (fst (handleSendChatMessage (Stream [js ''The '', js ''issue '', js ''is resolved.''] StreamDone)
           example_chat))
     = Some [\<lparr>role = User, turn_text = js ''Why?''\<rparr>,
             \<lparr>role = Model, turn_text = js ''The issue is resolved.''\<rparr>]"
  using uninterrupted_reply_concatenates [OF example_chat_ready, of "[js ''The '', js ''issue '', js ''is resolved.'']"]
    example_chat_ready
  by (simp add: example_chat_def initial_state_def js_def)

text \<open>The run in one piece is the stream opening followed by the chunks one by one.\<close>

lemma reply_chunks_stream_chunks:
  "reply_chunks chunks s =
     (case stream_chunks chunks (chatHistory s) of
        None \<Rightarrow> None
      | Some turns \<Rightarrow> Some (s\<lparr>chatHistory := turns\<rparr>))"
proof (induction chunks arbitrary: s)
  case Nil
  show ?case by simp
next
  case (Cons c cs)
  show ?case
  proof (cases "append_chunk (chatHistory s) c")
    case None
    then show ?thesis by (simp add: reply_chunk_def)
  next
    case (Some turns)
    then show ?thesis by (simp add: reply_chunk_def Cons.IH split: option.splits)
  qed
qed

lemma handleSendChatMessage_settle_events:
  "handleSendChatMessage_settle (Stream chunks StreamDone) s = reply_chunks chunks (reply_opened s)"
  "handleSendChatMessage_settle (Stream chunks StreamThrows) s =
     map_option chat_catch (reply_chunks chunks (reply_opened s))"
  by (simp_all add: handleSendChatMessage_settle_def reply_chunks_stream_chunks reply_opened_def Let_def
        split: option.splits)

text \<open>
  C5. The fragments of a reply are to go, in their order, to the one assistant turn of that
  reply. They do not always: the loading flag is cleared when the stream opens, so a
  second question is accepted while the first reply is streaming, and the next fragment
  is appended to the last turn of the log, which is then the user's second question.
\<close>

theorem C5_fragment_lands_on_user_turn:
  "map_option isChatLoading
     (reply_chunk (js ''The '') (reply_opened (fst (handleSendChatMessage_begin example_chat))))
     = Some False
   \<and> map_option chatHistory example_second_send
     = Some [\<lparr>role = User, turn_text = js ''Why?''\<rparr>,
             \<lparr>role = Model, turn_text = js ''The ''\<rparr>,
             \<lparr>role = User, turn_text = js ''And?issue ''\<rparr>]"
  by (simp add: example_second_send_def reply_chunk_def reply_opened_def append_chunk_def
        setChatInput_def handleSendChatMessage_begin_def example_chat_def initial_state_def
        trim_def is_js_space_def js_def Let_def)




subsection \<open>Dictation\<close>

text \<open>
  C7. After a first phrase is finalised, an end of the recognition stream while recording
  restarts recognition and leaves the state as it is; but the next result event replaces
  the transcript by the results of that event alone, so the finalised phrase is lost, and
  stopping then leaves an empty transcript.
\<close>

theorem C7_restart_loses_final_text:
  "transcriptRef example_heard = js ''hello '' \<and> audioTranscript example_heard = js ''hello ''
   \<and> isRecording example_heard
   \<and> recognition_onend False example_heard = (example_heard, [RecognitionStart])
   \<and> transcriptRef example_resumed = []
   \<and> audioTranscript example_resumed = js ''wor''
   \<and> audioTranscript (fst (handleRecordClick True example_resumed)) = []"
  by (simp add: example_resumed_def example_heard_def recognition_onresult_def recognition_onend_def
        handleRecordClick_def initial_state_def)

subsection \<open>The diagnostic client\<close>

lemmas lex_eval = parse_json_def js_def is_json_space_def is_digit_def push_unit_def
  strip_prefix_def trim_def is_js_space_def lex_number_def lex_digits_def lex_fraction_def
  lex_exponent_def lex_sign_def

lemma example_unrated_parses:
  "JSON_parse reference_platform (trim example_unrated_text) = Inr example_unrated_value"
  by (simp add: reference_platform_def example_unrated_text_def example_unrated_value_def
        example_report_members_def lex_eval)

lemma example_unrated_omits: "omits_required reportSchema example_unrated_value"
  by (simp add: reportSchema_def example_unrated_value_def example_report_members_def get_prop_def js_def)

text \<open>With the severity in place nothing required is missing.\<close>

lemma example_rated_complete: "\<not> omits_required reportSchema example_rated_value"
  by (simp add: reportSchema_def example_rated_value_def example_report_members_def get_prop_def js_def)

lemma example_bad_text:
  "JSON_parse reference_platform (trim (js ''Sorry, no report'')) = Inl (js ''Unexpected token'')"
  by (simp add: reference_platform_def lex_eval)

text \<open>
  C1, as stated: a response that parses but omits a required field makes the client fail.
  It does not: the sample response parses, omits \<^verbatim>\<open>riskAssessment.severity\<close>, and is
  returned as the report.
\<close>

theorem C1_partial_report_returned:
  "JSON_parse reference_platform (trim example_unrated_text) = Inr example_unrated_value
   \<and> omits_required reportSchema example_unrated_value
   \<and> runDiagnostics reference_platform (Responds (Some example_unrated_text)) = Inr example_unrated_value"
  using example_unrated_parses example_unrated_omits
  by (simp add: runDiagnostics_def runDiagnostics_try_def)

text \<open>
  C1, amended: when the trimmed text of the response is not valid JSON, the client fails
  with an error whose message is the fixed prefix followed by the parser's message; when
  it parses, the client returns the parsed value as it is, whatever its shape. So on a
  response with a text the client fails exactly when the trimmed text does not parse.
\<close>

theorem C1_parse_failure_or_unchecked_value:
  "(JSON_parse p (trim response_text) = Inl message \<longrightarrow>
      runDiagnostics p (Responds (Some response_text))
        = Inl (js ''Failed to get diagnostic report from AI: '' @ message))
   \<and> (JSON_parse p (trim response_text) = Inr reportData \<longrightarrow>
      runDiagnostics p (Responds (Some response_text)) = Inr reportData)
   \<and> isl (runDiagnostics p (Responds (Some response_text))) = isl (JSON_parse p (trim response_text))"
  by (simp add: runDiagnostics_def runDiagnostics_try_def split: sum.splits)

theorem C1_parse_failure_or_unchecked_value_witness:
  "JSON_parse reference_platform (trim (js ''Sorry, no report'')) = Inl (js ''Unexpected token'')
   \<and> runDiagnostics reference_platform (Responds (Some (js ''Sorry, no report'')))
       = Inl (js ''Failed to get diagnostic report from AI: '' @ js ''Unexpected token'')
   \<and> JSON_parse reference_platform (trim example_unrated_text) = Inr example_unrated_value
   \<and> runDiagnostics reference_platform (Responds (Some example_unrated_text)) = Inr example_unrated_value"
  using C1_parse_failure_or_unchecked_value
          [of reference_platform "js ''Sorry, no report''" "js ''Unexpected token''" example_unrated_value]
        C1_parse_failure_or_unchecked_value
          [of reference_platform example_unrated_text "js ''Unexpected token''" example_unrated_value]
        example_bad_text example_unrated_parses
  by simp

end
